theory Spec2Isabelle
  imports Main "HOL-Library.Sublist" "HOL-Library.AList"
begin

section \<open>Python values shared by the three scripts\<close>

text \<open>
  The repository holds three scripts: \<^verbatim>\<open>aws_dynamodb.py\<close> (the CSV consolidator),
  \<^verbatim>\<open>aws_s3.py\<close> (bucket listing and download) and \<^verbatim>\<open>aws_cognito_users.py\<close>
  (user lookup). Strings are \<^typ>\<open>string\<close>; the exceptions that the scripts raise
  themselves, or that the Python library raises on the paths the scripts take, are
  values of \<open>error\<close>. \<open>AwsConfigException\<close> carries its message, as the source
  writes it.
\<close>

datatype error =
    AwsConfigException string
  | TypeError
  | ValueError
  | SystemExit

text \<open>
  \<^verbatim>\<open>str.replace(old, new)\<close>: every non-overlapping occurrence of \<open>old\<close>, found
  from the left, is replaced. With an empty \<open>old\<close>, Python puts \<open>new\<close> before every
  character and at the end.
\<close>

function replace :: "string \<Rightarrow> string \<Rightarrow> string \<Rightarrow> string" where
  "replace old new [] = (if old = [] then new else [])"
| "replace old new (c # cs) =
     (if old = [] then new @ c # replace old new cs
      else if prefix old (c # cs) then new @ replace old new (drop (length old) (c # cs))
      else c # replace old new cs)"
  by pat_completeness auto
termination
  by (relation "measure (\<lambda>(old, new, s). length s)") auto

text \<open>\<^verbatim>\<open>str(n)\<close> of a non-negative integer, as an f-string formats it.\<close>

function str_nat :: "nat \<Rightarrow> string" where
  "str_nat n =
     (if n < 10 then [''0123456789'' ! n]
      else str_nat (n div 10) @ [''0123456789'' ! (n mod 10)])"
  by pat_completeness auto
termination
  by (relation "measure (\<lambda>n. n)") auto

declare str_nat.simps [simp del]

text \<open>Truth value of an optional string: \<^verbatim>\<open>None\<close> and \<^verbatim>\<open>''\<close> are false.\<close>

definition truthy :: "string option \<Rightarrow> bool" where
  "truthy s = (case s of None \<Rightarrow> False | Some v \<Rightarrow> v \<noteq> [])"

text \<open>An optional string inside an f-string: \<^verbatim>\<open>None\<close> prints as \<^verbatim>\<open>None\<close>.\<close>

definition str_opt :: "string option \<Rightarrow> string" where
  "str_opt s = (case s of None \<Rightarrow> ''None'' | Some v \<Rightarrow> v)"

section \<open>The CSV consolidator (\<^verbatim>\<open>aws_dynamodb.py\<close>)\<close>

text \<open>
  An input file is modelled by the rows that \<^verbatim>\<open>csv.reader\<close> yields for it, each a
  list of strings (a blank line is the empty row); the input directory is the list of
  its files in the order \<^verbatim>\<open>listdir\<close> returns them. A record is a Python dict in
  insertion order; its keys are field names, or \<^verbatim>\<open>None\<close> (the \<^verbatim>\<open>restkey\<close> that
  \<^verbatim>\<open>DictReader\<close> uses for surplus values), its values are strings, the list of
  surplus values, or \<^verbatim>\<open>None\<close> (the \<^verbatim>\<open>restval\<close> of a missing value).
\<close>

type_synonym csv_row = "string list"
type_synonym csv_file = "csv_row list"

datatype cell = Str string | Lst "string list" | PyNone

type_synonym csv_record = "(string option \<times> cell) list"

definition cleanse_header :: "string set \<Rightarrow> string set" where
  "cleanse_header header = (\<lambda>col. replace '' (N)'' [] (replace '' (S)'' [] col)) ` header"

text \<open>
  \<^verbatim>\<open>DictReader.fieldnames\<close>: the first row of the file, \<^verbatim>\<open>None\<close> when the file has
  no row at all.
\<close>

definition fieldnames :: "csv_file \<Rightarrow> csv_row option" where
  "fieldnames f = (case f of [] \<Rightarrow> None | r # rs \<Rightarrow> Some r)"

text \<open>
  One step of \<^verbatim>\<open>DictReader.__next__\<close> on a non-blank row:
  \<^verbatim>\<open>d = dict(zip(fieldnames, row))\<close>, then the surplus values under the key
  \<^verbatim>\<open>None\<close>, or \<^verbatim>\<open>None\<close> for every field name the row is too short for.
\<close>

definition dict_zip :: "csv_row \<Rightarrow> csv_row \<Rightarrow> csv_record" where
  "dict_zip fns row = foldl (\<lambda>d (k, v). AList.update (Some k) (Str v) d) [] (zip fns row)"

definition next_record :: "csv_row \<Rightarrow> csv_row \<Rightarrow> csv_record" where
  "next_record fns row =
     (let d = dict_zip fns row; lf = length fns; lr = length row
      in if lf < lr then AList.update None (Lst (drop lf row)) d
         else if lf > lr then foldl (\<lambda>d k. AList.update (Some k) PyNone d) d (drop lr fns)
         else d)"

text \<open>
  Iterating a \<^verbatim>\<open>DictReader\<close>: the rows after the header, blank rows skipped. It is
  used for a file that has a first row only.
\<close>

definition dict_rows :: "csv_file \<Rightarrow> csv_record list" where
  "dict_rows f = map (next_record (hd f)) (filter (\<lambda>row. row \<noteq> []) (tl f))"

text \<open>
  The reading loop (lines 21 to 26): \<open>header_fields\<close> and \<open>csv_records\<close> are the two
  module-level accumulators. \<^verbatim>\<open>header_fields.update(None)\<close>, for a file without any
  row, raises \<^verbatim>\<open>TypeError\<close>. The raw field names go into the set:
  \<open>cleanse_header\<close> is not called anywhere.
\<close>

fun read_files ::
  "csv_file list \<Rightarrow> string set \<Rightarrow> csv_record list \<Rightarrow> error + (string set \<times> csv_record list)"
where
  "read_files [] header_fields csv_records = Inr (header_fields, csv_records)"
| "read_files (inp_file # rest) header_fields csv_records =
     (case fieldnames inp_file of
        None \<Rightarrow> Inl TypeError
      | Some fns \<Rightarrow>
          read_files rest (header_fields \<union> set fns) (csv_records @ dict_rows inp_file))"

text \<open>
  \<^verbatim>\<open>DictWriter.writerow\<close> with the default \<^verbatim>\<open>extrasaction='raise'\<close> and
  \<^verbatim>\<open>restval=''\<close>: a key of the record that is no field name raises
  \<^verbatim>\<open>ValueError\<close>; otherwise the row handed to the underlying writer holds, for each
  field name in order, the record's value or \<^verbatim>\<open>''\<close>.
\<close>

definition dict_to_list :: "string list \<Rightarrow> csv_record \<Rightarrow> error + cell list" where
  "dict_to_list fns rowdict =
     (if set (map fst rowdict) - Some ` set fns \<noteq> {} then Inl ValueError
      else Inr (map (\<lambda>k. case map_of rowdict (Some k) of None \<Rightarrow> Str [] | Some v \<Rightarrow> v) fns))"

text \<open>
  The writing loop (lines 36 and 37): the rows written so far are kept, since an
  exception leaves them in the output file.
\<close>

fun write_rows :: "string list \<Rightarrow> csv_record list \<Rightarrow> cell list list \<Rightarrow> error option \<times> cell list list"
where
  "write_rows fns [] written = (None, written)"
| "write_rows fns (item # items) written =
     (case dict_to_list fns item of
        Inl e \<Rightarrow> (Some e, written)
      | Inr row \<Rightarrow> write_rows fns items (written @ [row]))"

record csv_output =
  out_header :: "string list"
  out_rows :: "cell list list"

text \<open>
  The script. \<open>to_list\<close> is \<^verbatim>\<open>list(header_fields)\<close>: the order in which Python
  iterates a set is not fixed by the language, so it is a parameter. The result is the
  exception that ended the script, if any, and the output file, if it was opened.
  The creation of the output directory is not part of the model.
\<close>

definition consolidate ::
  "(string set \<Rightarrow> string list) \<Rightarrow> csv_file list \<Rightarrow> error option \<times> csv_output option"
where
  "consolidate to_list input_dir =
     (case read_files input_dir {} [] of
        Inl e \<Rightarrow> (Some e, None)
      | Inr (header_fields, csv_records) \<Rightarrow>
          (let header_list = to_list header_fields;
               (e, written) = write_rows header_list csv_records []
           in (e, Some \<lparr>out_header = header_list, out_rows = written\<rparr>)))"

text \<open>
  An iteration order for the examples: the members of the set, in the order of a given
  list.
\<close>

definition members_in_order :: "string list \<Rightarrow> string set \<Rightarrow> string list" where
  "members_in_order universe S = filter (\<lambda>x. x \<in> S) universe"

section \<open>Credentials from the environment\<close>

text \<open>
  \<^verbatim>\<open>os.environ\<close> is a map from names to values; a variable can be set to the empty
  string. \<^verbatim>\<open>os.getenv(name, default)\<close> returns the default only when the variable
  is absent.
\<close>

type_synonym environment = "string \<rightharpoonup> string"

definition getenv :: "environment \<Rightarrow> string \<Rightarrow> string \<Rightarrow> string" where
  "getenv env name dflt = (case env name of None \<Rightarrow> dflt | Some v \<Rightarrow> v)"

record credentials =
  aws_access_key_id :: string
  aws_secret_access_key :: string
  aws_region_name :: string

text \<open>
  \<^verbatim>\<open>_get_aws_credentials\<close>, lines 66 to 81 of \<^verbatim>\<open>aws_s3.py\<close> and, with the same
  text, lines 36 to 51 of \<^verbatim>\<open>aws_cognito_users.py\<close>.
\<close>

definition get_aws_credentials :: "environment \<Rightarrow> error + credentials" where
  "get_aws_credentials env =
     (let region_name = getenv env ''AWS_DEFAULT_REGION'' (getenv env ''AWS_REGION'' []);
          access_key_id = getenv env ''AWS_ACCESS_KEY_ID_DEV'' [];
          secret_access_key = getenv env ''AWS_SECRET_ACCESS_KEY_DEV'' []
      in if region_name = [] then
           Inl (AwsConfigException
             ''Environment variable [AWS_DEFAULT_REGION | AWS_REGION] not set'')
         else if access_key_id = [] then
           Inl (AwsConfigException ''Environment variable AWS_ACCESS_KEY_ID_DEV not set'')
         else if secret_access_key = [] then
           Inl (AwsConfigException ''Environment variable AWS_SECRET_ACCESS_KEY_DEV not set'')
         else
           Inr \<lparr>aws_access_key_id = access_key_id,
                aws_secret_access_key = secret_access_key,
                aws_region_name = region_name\<rparr>)"

section \<open>The process and its surroundings\<close>

text \<open>
  What a script can read or change outside its own variables: the environment, the
  working directory, the remote buckets, the local file system, the user directory, and
  a trace of the calls that leave the process, in the order they are made. A bucket is
  not changed by the scripts, but others can change it while a script runs:
  \<open>buckets w b n\<close> is the list of objects, in the order the service gives them, that
  the enumeration number \<open>n\<close> of the run finds in the bucket \<open>b\<close>, and
  \<open>enumerations\<close> counts the enumerations made so far. \<open>object_body\<close> is the content
  of an object. Calls to the SDK and to the file system are modelled as succeeding. The events: a message handed to a logger (its name, the
  message); \<^verbatim>\<open>boto3.setup_default_session\<close>, \<^verbatim>\<open>boto3.resource\<close> and
  \<^verbatim>\<open>boto3.client\<close>; one enumeration of \<^verbatim>\<open>Bucket(name).objects.all()\<close>;
  \<^verbatim>\<open>os.makedirs\<close>; \<^verbatim>\<open>download_file\<close> (bucket, key, local file);
  \<^verbatim>\<open>list_users\<close> (pool, filter); and the two \<^verbatim>\<open>pprint\<close> calls.
\<close>

datatype ObjectSummary = ObjectSummary (object_bucket_name: string) (key: string)

record bucket_item =
  bucket_name :: string
  bucket_key :: string

record listing =
  bucket_size :: nat
  bucket_items :: "bucket_item list"

datatype boto3_handle = Handle (service: string) (explicit_credentials: "credentials option")

datatype fs_node = Dir | File string

datatype 'r event =
    LogInfo string string
  | SetupDefaultSession string
  | Boto3Resource string "credentials option"
  | Boto3Client string "credentials option"
  | ObjectsAll string
  | Makedirs string
  | DownloadFile string string string
  | ListUsers string string
  | PPrintListing listing
  | PPrintUsers 'r

record 'r world =
  environ :: environment
  getcwd :: string
  buckets :: "string \<Rightarrow> nat \<Rightarrow> ObjectSummary list"
  enumerations :: nat
  object_body :: "string \<Rightarrow> string \<Rightarrow> string"
  fs :: "string \<rightharpoonup> fs_node"
  user_directory :: "string \<Rightarrow> string \<Rightarrow> 'r"
  trace :: "'r event list"

definition emit :: "'r event \<Rightarrow> 'r world \<Rightarrow> 'r world" where
  "emit e w = w\<lparr>trace := trace w @ [e]\<rparr>"

text \<open>
  Both \<^verbatim>\<open>AwsS3Download\<close> and \<^verbatim>\<open>AwsCognitoUser\<close> keep \<open>verbose\<close> and \<open>log\<close>
  (the logger, known by its name, which is the class name) and have the same
  \<^verbatim>\<open>_log\<close> method, here \<open>log_info\<close>: with \<open>verbose\<close> the message goes to the
  logger, which is an event of the trace. The configuration of the root logger in
  \<^verbatim>\<open>_get_logger\<close> is not part of the model.
\<close>

record logged =
  verbose :: bool
  log :: string

definition log_info :: "'a logged_scheme \<Rightarrow> string \<Rightarrow> 'r world \<Rightarrow> 'r world" where
  "log_info self message w = (if verbose self then emit (LogInfo (log self) message) w else w)"

text \<open>
  \<^verbatim>\<open>argparse\<close>: the command line is the list of the options given, by their long
  names, with their values (\<^verbatim>\<open>None\<close> for a flag). An option that is not given and
  has no \<^verbatim>\<open>default=\<close> is \<^verbatim>\<open>None\<close> in the namespace; the last occurrence of an
  option wins; a missing required option ends the process.
\<close>

type_synonym argv = "(string \<times> string option) list"

fun get_opt :: "string \<Rightarrow> argv \<Rightarrow> string option" where
  "get_opt name [] = None"
| "get_opt name ((n, v) # rest) =
     (case get_opt name rest of
        Some x \<Rightarrow> Some x
      | None \<Rightarrow> (if n = name then v else None))"

definition has_flag :: "string \<Rightarrow> argv \<Rightarrow> bool" where
  "has_flag name av = ((name, None) \<in> set av)"

section \<open>Bucket listing and download (\<^verbatim>\<open>aws_s3.py\<close>)\<close>

definition AwsS3Download_AWS_SERVICE :: string where
  "AwsS3Download_AWS_SERVICE = ''s3''"

record AwsS3Download = logged +
  aws_s3_client :: boto3_handle

text \<open>\<^verbatim>\<open>AwsS3Download._get_aws_credentials\<close>: a log line, then the reading above.\<close>

definition AwsS3Download_get_aws_credentials ::
  "'a logged_scheme \<Rightarrow> 'r world \<Rightarrow> (error + credentials) \<times> 'r world"
where
  "AwsS3Download_get_aws_credentials self w =
     (let w1 = log_info self ''Looking for environment AWS credentials.'' w
      in (get_aws_credentials (environ w1), w1))"

definition get_s3_client ::
  "'a logged_scheme \<Rightarrow> string option \<Rightarrow> 'r world \<Rightarrow> (error + boto3_handle) \<times> 'r world"
where
  "get_s3_client self aws_profile w =
     (case (if truthy aws_profile then aws_profile else None) of
        Some p \<Rightarrow>
          (let w1 = log_info self (''Found profile <'' @ p @ ''> and set up session.'') w;
               w2 = emit (SetupDefaultSession p) w1
           in (Inr (Handle AwsS3Download_AWS_SERVICE None),
               emit (Boto3Resource AwsS3Download_AWS_SERVICE None) w2))
      | None \<Rightarrow>
          (let w1 = log_info self
                 ''No profile provided. Continue with environment AWS credentials.'' w
           in case AwsS3Download_get_aws_credentials self w1 of
                (Inl e, w2) \<Rightarrow> (Inl e, w2)
              | (Inr aws_credentials, w2) \<Rightarrow>
                  (Inr (Handle AwsS3Download_AWS_SERVICE (Some aws_credentials)),
                   emit (Boto3Resource AwsS3Download_AWS_SERVICE (Some aws_credentials)) w2)))"

definition AwsS3Download_init ::
  "string option \<Rightarrow> bool \<Rightarrow> 'r world \<Rightarrow> (error + AwsS3Download) \<times> 'r world"
where
  "AwsS3Download_init aws_profile is_verbose w =
     (case get_s3_client \<lparr>verbose = is_verbose, log = ''AwsS3Download''\<rparr> aws_profile w of
        (Inl e, w1) \<Rightarrow> (Inl e, w1)
      | (Inr c, w1) \<Rightarrow>
          (Inr \<lparr>verbose = is_verbose, log = ''AwsS3Download'', aws_s3_client = c\<rparr>, w1))"

text \<open>
  \<^verbatim>\<open>item.key.startswith(s3_bucket_key)\<close>. The parameter's default is \<^verbatim>\<open>''\<close>, but a
  caller can pass \<^verbatim>\<open>None\<close>, for which \<^verbatim>\<open>str.startswith\<close> raises
  \<^verbatim>\<open>TypeError\<close>.
\<close>

definition startswith :: "string \<Rightarrow> string option \<Rightarrow> error + bool" where
  "startswith s p = (case p of None \<Rightarrow> Inl TypeError | Some q \<Rightarrow> Inr (prefix q s))"

text \<open>
  The two passes over the bucket of \<^verbatim>\<open>get_s3_bucket_list\<close>: the sum of a 1 for each
  matching item (line 92), and the loop that appends the matching items (lines 95 to
  101). An exception in the test ends the pass.
\<close>

fun count_matching :: "ObjectSummary list \<Rightarrow> string option \<Rightarrow> nat \<Rightarrow> error + nat" where
  "count_matching [] s3_bucket_key n = Inr n"
| "count_matching (item # rest) s3_bucket_key n =
     (case startswith (key item) s3_bucket_key of
        Inl e \<Rightarrow> Inl e
      | Inr b \<Rightarrow> count_matching rest s3_bucket_key (if b then n + 1 else n))"

fun collect_matching ::
  "ObjectSummary list \<Rightarrow> string option \<Rightarrow> bucket_item list \<Rightarrow> error + bucket_item list"
where
  "collect_matching [] s3_bucket_key items = Inr items"
| "collect_matching (item # rest) s3_bucket_key items =
     (case startswith (key item) s3_bucket_key of
        Inl e \<Rightarrow> Inl e
      | Inr b \<Rightarrow>
          collect_matching rest s3_bucket_key
            (if b then items @
                 [\<lparr>bucket_name = object_bucket_name item, bucket_key = key item\<rparr>]
             else items))"

text \<open>
  \<^verbatim>\<open>bucket = ...Bucket(s3_bucket).objects.all()\<close> is a lazy collection: every
  iteration over it is an enumeration of its own by the service. \<open>objects_all\<close> is one
  such iteration: the objects that this enumeration finds, and the state after it.
\<close>

definition objects_all :: "string \<Rightarrow> 'r world \<Rightarrow> ObjectSummary list \<times> 'r world" where
  "objects_all s3_bucket w =
     (buckets w s3_bucket (enumerations w),
      (emit (ObjectsAll s3_bucket) w)\<lparr>enumerations := Suc (enumerations w)\<rparr>)"

text \<open>
  \<^verbatim>\<open>get_s3_bucket_list\<close>: the count is taken over a first iteration of \<open>bucket\<close>
  (line 92), the items are collected over a second one (lines 96 to 101).
\<close>

definition get_s3_bucket_list ::
  "'a AwsS3Download_scheme \<Rightarrow> string \<Rightarrow> string option \<Rightarrow> 'r world \<Rightarrow> (error + listing) \<times> 'r world"
where
  "get_s3_bucket_list self s3_bucket s3_bucket_key w =
     (case objects_all s3_bucket w of
        (first_pass, w1) \<Rightarrow>
          (case count_matching first_pass s3_bucket_key 0 of
             Inl e \<Rightarrow> (Inl e, w1)
           | Inr n \<Rightarrow>
               (let w2 = log_info self
                      (''Bucket <'' @ s3_bucket @ ''> contains '' @ str_nat n @
                       '' item(s) with key <'' @ str_opt s3_bucket_key @ ''>.'') w1
                in case objects_all s3_bucket w2 of
                     (second_pass, w3) \<Rightarrow>
                       (case collect_matching second_pass s3_bucket_key [] of
                          Inl e \<Rightarrow> (Inl e, w3)
                        | Inr items \<Rightarrow>
                            (Inr \<lparr>bucket_size = n, bucket_items = items\<rparr>, w3)))))"

text \<open>
  \<^verbatim>\<open>_get_s3_bucket_item\<close>: the object's content is written to the target file.
\<close>

definition get_s3_bucket_item ::
  "'a AwsS3Download_scheme \<Rightarrow> string \<Rightarrow> string \<Rightarrow> string \<Rightarrow> 'r world \<Rightarrow> 'r world"
where
  "get_s3_bucket_item self s3_bucket s3_bucket_key target_folder w =
     (let target_file = target_folder @ ''/'' @ replace ''/'' ''_'' s3_bucket_key;
          w1 = log_info self
                 (''Download <'' @ s3_bucket @ ''/'' @ s3_bucket_key @ ''> to <'' @
                  target_file @ ''>'') w;
          w2 = emit (DownloadFile s3_bucket s3_bucket_key target_file) w1
      in w2\<lparr>fs := (fs w2)(target_file \<mapsto> File (object_body w2 s3_bucket s3_bucket_key))\<rparr>)"

text \<open>The loop of lines 125 and 126.\<close>

fun get_items ::
  "'a AwsS3Download_scheme \<Rightarrow> bucket_item list \<Rightarrow> string \<Rightarrow> 'r world \<Rightarrow> 'r world"
where
  "get_items self [] target_folder w = w"
| "get_items self (item # rest) target_folder w =
     get_items self rest target_folder
       (get_s3_bucket_item self (bucket_name item) (bucket_key item) target_folder w)"

definition makedirs :: "string \<Rightarrow> 'r world \<Rightarrow> 'r world" where
  "makedirs d w = (emit (Makedirs d) w)\<lparr>fs := (fs w)(d \<mapsto> Dir)\<rparr>"

definition get_s3_bucket ::
  "'a AwsS3Download_scheme \<Rightarrow> string \<Rightarrow> string option \<Rightarrow> string option \<Rightarrow> 'r world
     \<Rightarrow> (error + unit) \<times> 'r world"
where
  "get_s3_bucket self s3_bucket s3_bucket_key target_folder w =
     (case get_s3_bucket_list self s3_bucket s3_bucket_key w of
        (Inl e, w1) \<Rightarrow> (Inl e, w1)
      | (Inr bucket, w1) \<Rightarrow>
          (if bucket_size bucket > 0 then
             (let folder = (case (if truthy target_folder then target_folder else None) of
                              Some t \<Rightarrow> t
                            | None \<Rightarrow> getcwd w1 @ ''/'' @ s3_bucket);
                  w2 = (if fs w1 folder = None then
                          makedirs folder
                            (log_info self
                               (''Target dir <'' @ folder @
                                ''> does not exist and will be created.'') w1)
                        else w1)
              in (Inr (), get_items self (bucket_items bucket) folder w2))
           else (Inr (), w1)))"

record args =
  args_bucket :: string
  args_bucket_key :: "string option"
  args_profile :: "string option"
  args_dryrun :: bool
  args_verbose :: bool

text \<open>
  Lines 146 to 152: \<^verbatim>\<open>--bucket\<close> is required; \<^verbatim>\<open>--bucket-key\<close> and
  \<^verbatim>\<open>--profile\<close> are declared without a default.
\<close>

definition parse_args :: "argv \<Rightarrow> error + args" where
  "parse_args av =
     (case get_opt ''--bucket'' av of
        None \<Rightarrow> Inl SystemExit
      | Some b \<Rightarrow>
          Inr \<lparr>args_bucket = b,
               args_bucket_key = get_opt ''--bucket-key'' av,
               args_profile = get_opt ''--profile'' av,
               args_dryrun = has_flag ''--dryrun'' av,
               args_verbose = has_flag ''--verbose'' av\<rparr>)"

definition aws_s3_main :: "argv \<Rightarrow> 'r world \<Rightarrow> (error + unit) \<times> 'r world" where
  "aws_s3_main av w =
     (case parse_args av of
        Inl e \<Rightarrow> (Inl e, w)
      | Inr args \<Rightarrow>
          (case AwsS3Download_init (args_profile args) (args_verbose args) w of
             (Inl e, w1) \<Rightarrow> (Inl e, w1)
           | (Inr aws_s3_downloader, w1) \<Rightarrow>
               (if args_dryrun args then
                  (case get_s3_bucket_list aws_s3_downloader (args_bucket args)
                          (args_bucket_key args) w1 of
                     (Inl e, w2) \<Rightarrow> (Inl e, w2)
                   | (Inr listed, w2) \<Rightarrow> (Inr (), emit (PPrintListing listed) w2))
                else
                  get_s3_bucket aws_s3_downloader (args_bucket args) (args_bucket_key args)
                    None w1)))"

section \<open>User lookup (\<^verbatim>\<open>aws_cognito_users.py\<close>)\<close>

record AwsClientService =
  aws_profile :: "string option"

definition get_aws_client ::
  "AwsClientService \<Rightarrow> string \<Rightarrow> 'r world \<Rightarrow> (error + boto3_handle) \<times> 'r world"
where
  "get_aws_client self aws_service w =
     (case (if truthy (aws_profile self) then aws_profile self else None) of
        Some p \<Rightarrow>
          (Inr (Handle aws_service None),
           emit (Boto3Client aws_service None) (emit (SetupDefaultSession p) w))
      | None \<Rightarrow>
          (case get_aws_credentials (environ w) of
             Inl e \<Rightarrow> (Inl e, w)
           | Inr aws_credentials \<Rightarrow>
               (Inr (Handle aws_service (Some aws_credentials)),
                emit (Boto3Client aws_service (Some aws_credentials)) w)))"

definition AwsCognitoUser_AWS_SERVICE :: string where
  "AwsCognitoUser_AWS_SERVICE = ''cognito-idp''"

record AwsCognitoUser = logged +
  aws_cognito_client :: boto3_handle
  user_pool_id :: string

definition AwsCognitoUser_init ::
  "string \<Rightarrow> string option \<Rightarrow> bool \<Rightarrow> 'r world \<Rightarrow> (error + AwsCognitoUser) \<times> 'r world"
where
  "AwsCognitoUser_init pool_id profile is_verbose w =
     (case get_aws_client \<lparr>aws_profile = profile\<rparr> AwsCognitoUser_AWS_SERVICE w of
        (Inl e, w1) \<Rightarrow> (Inl e, w1)
      | (Inr c, w1) \<Rightarrow>
          (Inr \<lparr>verbose = is_verbose, log = ''AwsCognitoUser'',
                aws_cognito_client = c, user_pool_id = pool_id\<rparr>, w1))"

text \<open>
  \<^verbatim>\<open>get_user_details\<close>: the one call \<^verbatim>\<open>list_users(UserPoolId=..., Filter=...)\<close>;
  what the directory answers is returned as it is.
\<close>

definition get_user_details ::
  "'a AwsCognitoUser_scheme \<Rightarrow> string \<Rightarrow> 'r world \<Rightarrow> 'r \<times> 'r world"
where
  "get_user_details self username w =
     (let w1 = log_info self
                 (''Get user informations from cognito for user <'' @ username @ ''>'') w;
          filter_expression = ''username = '' @ [CHR 0x22] @ username @ [CHR 0x22];
          w2 = emit (ListUsers (user_pool_id self) filter_expression) w1
      in (user_directory w2 (user_pool_id self) filter_expression, w2))"

definition aws_cognito_users_main :: "argv \<Rightarrow> 'r world \<Rightarrow> (error + unit) \<times> 'r world" where
  "aws_cognito_users_main av w =
     (case (get_opt ''--username'' av, get_opt ''--cognito-userpool'' av) of
        (Some username, Some cognito_userpool) \<Rightarrow>
          (case AwsCognitoUser_init cognito_userpool (get_opt ''--profile'' av)
                  (has_flag ''--verbose'' av) w of
             (Inl e, w1) \<Rightarrow> (Inl e, w1)
           | (Inr aws_cognito_user_client, w1) \<Rightarrow>
               (case get_user_details aws_cognito_user_client username w1 of
                  (user, w2) \<Rightarrow> (Inr (), emit (PPrintUsers user) w2)))
      | _ \<Rightarrow> (Inl SystemExit, w))"

text \<open>The filter expressions of the \<^verbatim>\<open>list_users\<close> calls of a trace, in order.\<close>

fun issued_filters :: "'r event list \<Rightarrow> string list" where
  "issued_filters [] = []"
| "issued_filters (ListUsers pool f # es) = f # issued_filters es"
| "issued_filters (e # es) = issued_filters es"

text \<open>
  The events of a trace that are calls to the SDK or change the file system: all but the
  log lines and the printing.
\<close>

fun is_call :: "'r event \<Rightarrow> bool" where
  "is_call (LogInfo name message) = False"
| "is_call (PPrintListing l) = False"
| "is_call (PPrintUsers u) = False"
| "is_call e = True"

text \<open>The \<^verbatim>\<open>download_file\<close> calls of a trace: bucket, key and local file, in order.\<close>

fun downloads :: "'r event list \<Rightarrow> (string \<times> string \<times> string) list" where
  "downloads [] = []"
| "downloads (DownloadFile b k f # es) = (b, k, f) # downloads es"
| "downloads (e # es) = downloads es"

section \<open>A small world for the examples\<close>

definition demo_bucket :: "string \<Rightarrow> ObjectSummary list" where
  "demo_bucket b =
     (if b = ''photos'' then
        [ObjectSummary ''photos'' ''a/b/c.txt'', ObjectSummary ''photos'' ''a/d.txt'',
         ObjectSummary ''photos'' ''A/e.txt'', ObjectSummary ''photos'' ''z.txt'']
      else [])"

definition demo_world :: "(string \<times> string) list \<Rightarrow> string world" where
  "demo_world env =
     \<lparr>environ = map_of env, getcwd = ''/home/user'', buckets = (\<lambda>b n. demo_bucket b),
      enumerations = 0, object_body = (\<lambda>b k. ''content of '' @ k), fs = Map.empty,
      user_directory = (\<lambda>p f. ''users with '' @ f), trace = []\<rparr>"

text \<open>
  The same world with a bucket that changes during the run: after the first enumeration
  the object \<open>new.txt\<close> is added to every bucket.
\<close>

definition demo_growing_bucket :: "string \<Rightarrow> nat \<Rightarrow> ObjectSummary list" where
  "demo_growing_bucket b n =
     (if n = 0 then demo_bucket b else demo_bucket b @ [ObjectSummary b ''new.txt''])"

definition demo_growing_world :: "string world" where
  "demo_growing_world = (demo_world [])\<lparr>buckets := demo_growing_bucket\<rparr>"

definition demo_downloader :: AwsS3Download where
  "demo_downloader =
     \<lparr>verbose = True, log = ''AwsS3Download'', aws_s3_client = Handle ''s3'' None\<rparr>"

definition demo_lookup :: AwsCognitoUser where
  "demo_lookup =
     \<lparr>verbose = True, log = ''AwsCognitoUser'',
      aws_cognito_client = Handle ''cognito-idp'' None, user_pool_id = ''eu-west-1_abc''\<rparr>"

definition demo_input_dir :: "csv_file list" where
  "demo_input_dir =
     [[[''id (S)'', ''name''], [''1'', ''bob''], [], [''2'']],
      [[''id (S)'', ''amount (N)''], [''3'', ''30'']]]"

section \<open>Properties of the CSV consolidator\<close>

lemma keys_foldl_zip:
  "fst ` set (foldl (\<lambda>d (k, v). AList.update (Some k) (Str v) d) d0 (zip fns row))
     \<subseteq> fst ` set d0 \<union> Some ` set fns"
proof (induction fns arbitrary: row d0)
  case Nil
  then show ?case by simp
next
  case (Cons f fns)
  show ?case
  proof (cases row)
    case Nil
    then show ?thesis by auto
  next
    case (Cons v vs)
    have "fst ` set (foldl (\<lambda>d (k, v). AList.update (Some k) (Str v) d)
                      (AList.update (Some f) (Str v) d0) (zip fns vs))
            \<subseteq> fst ` set (AList.update (Some f) (Str v) d0) \<union> Some ` set fns"
      by (rule Cons.IH)
    then show ?thesis
      using Cons by (auto simp: dom_update)
  qed
qed

lemma keys_dict_zip: "fst ` set (dict_zip fns row) \<subseteq> Some ` set fns"
  using keys_foldl_zip [of "[]" fns row] by (simp add: dict_zip_def)

lemma keys_foldl_pad:
  "fst ` set (foldl (\<lambda>d k. AList.update (Some k) PyNone d) d0 ks) = fst ` set d0 \<union> Some ` set ks"
  by (induction ks arbitrary: d0) (auto simp: dom_update)

lemma keys_next_record:
  assumes "length row \<le> length fns"
  shows "fst ` set (next_record fns row) \<subseteq> Some ` set fns"
proof (cases "length row < length fns")
  case True
  have "set (drop (length row) fns) \<subseteq> set fns" by (rule set_drop_subset)
  then show ?thesis
    using True keys_dict_zip [of fns row]
    by (auto simp: next_record_def Let_def keys_foldl_pad)
next
  case False
  then show ?thesis
    using assms keys_dict_zip [of fns row] by (simp add: next_record_def Let_def)
qed

lemma keys_dict_rows:
  assumes "\<forall>row \<in> set (tl f). length row \<le> length (hd f)" and "d \<in> set (dict_rows f)"
  shows "fst ` set d \<subseteq> Some ` set (hd f)"
proof -
  obtain row where "row \<in> set (tl f)" and d: "d = next_record (hd f) row"
    using assms(2) by (auto simp: dict_rows_def)
  then have "length row \<le> length (hd f)" using assms(1) by blast
  then show ?thesis unfolding d by (rule keys_next_record)
qed

lemma read_files_ok:
  assumes "\<forall>f \<in> set files. f \<noteq> []"
  shows "read_files files H R =
           Inr (H \<union> (\<Union>f \<in> set files. set (hd f)), R @ concat (map dict_rows files))"
  using assms
proof (induction files arbitrary: H R)
  case Nil
  then show ?case by simp
next
  case (Cons f files)
  then obtain r rs where f: "f = r # rs" by (cases f) auto
  have "read_files files (H \<union> set r) (R @ dict_rows f) =
          Inr ((H \<union> set r) \<union> (\<Union>f \<in> set files. set (hd f)),
               (R @ dict_rows f) @ concat (map dict_rows files))"
    using Cons.prems by (intro Cons.IH) simp
  then show ?case
    by (simp add: f fieldnames_def Un_assoc)
qed

lemma write_rows_ok:
  assumes "\<forall>d \<in> set items. fst ` set d \<subseteq> Some ` set fns"
  shows "write_rows fns items written =
           (None, written @
              map (\<lambda>d. map (\<lambda>k. case map_of d (Some k) of None \<Rightarrow> Str [] | Some v \<Rightarrow> v) fns)
                items)"
  using assms
proof (induction items arbitrary: written)
  case Nil
  then show ?case by simp
next
  case (Cons d items)
  have "fst ` set d \<subseteq> Some ` set fns" using Cons.prems by simp
  then have "fst ` set d - Some ` set fns = {}" by blast
  then have d: "dict_to_list fns d =
      Inr (map (\<lambda>k. case map_of d (Some k) of None \<Rightarrow> Str [] | Some v \<Rightarrow> v) fns)"
    by (simp add: dict_to_list_def)
  show ?case
    using Cons.prems by (simp add: d Cons.IH)
qed

lemma demo_header_fields:
  "(\<Union>f \<in> set demo_input_dir. set (hd f)) = {''id (S)'', ''name'', ''amount (N)''}"
  by (auto simp: demo_input_dir_def)

lemma demo_files_have_header: "\<forall>f \<in> set demo_input_dir. f \<noteq> []"
  by (simp add: demo_input_dir_def)

text \<open>
  C1 (the code departs from the claim). The claim: the written header is the union of
  the column names with \<^verbatim>\<open>" (S)"\<close> and \<^verbatim>\<open>" (N)"\<close> stripped, so that files with
  the columns \<^verbatim>\<open>["id (S)", "name"]\<close> and \<^verbatim>\<open>["id (S)", "amount (N)"]\<close> give the
  header \<^verbatim>\<open>{"id", "name", "amount"}\<close>. On these two files the script writes, for
  every iteration order of the set, the header made of the raw names
  \<^verbatim>\<open>{"id (S)", "name", "amount (N)"}\<close>, which is another set; \<open>cleanse_header\<close>
  would turn it into the claimed one, but the script never calls it.
\<close>

theorem header_keeps_type_annotations:
  "map_option out_header (snd (consolidate to_list demo_input_dir)) =
     Some (to_list {''id (S)'', ''name'', ''amount (N)''})
 \<and> {''id (S)'', ''name'', ''amount (N)''} \<noteq> {''id'', ''name'', ''amount''}
 \<and> cleanse_header {''id (S)'', ''name'', ''amount (N)''} = {''id'', ''name'', ''amount''}"
proof (intro conjI)
  have "read_files demo_input_dir {} [] =
          Inr ({''id (S)'', ''name'', ''amount (N)''}, concat (map dict_rows demo_input_dir))"
    using read_files_ok [OF demo_files_have_header, of "{}" "[]"]
    by (simp add: demo_header_fields)
  then show "map_option out_header (snd (consolidate to_list demo_input_dir)) =
     Some (to_list {''id (S)'', ''name'', ''amount (N)''})"
    by (simp add: consolidate_def Let_def split: prod.splits)
  show "{''id (S)'', ''name'', ''amount (N)''} \<noteq> {''id'', ''name'', ''amount''}"
  proof
    assume eq: "{''id (S)'', ''name'', ''amount (N)''} = {''id'', ''name'', ''amount''}"
    have "''id'' \<in> {''id'', ''name'', ''amount''}" by simp
    then have "''id'' \<in> {''id (S)'', ''name'', ''amount (N)''}" unfolding eq .
    then show False by simp
  qed
  show "cleanse_header {''id (S)'', ''name'', ''amount (N)''} = {''id'', ''name'', ''amount''}"
    by (simp add: cleanse_header_def)
qed

text \<open>
  C10, as stated, fails: a data row with more values than its file has field names
  gets the key \<^verbatim>\<open>None\<close> from \<^verbatim>\<open>DictReader\<close>, which is in no header, and writing
  that row raises \<^verbatim>\<open>ValueError\<close>. Here the file is \<^verbatim>\<open>a\<close> / \<^verbatim>\<open>1,2\<close>: the header
  is written and no row. And a file without any row ends the script with
  \<^verbatim>\<open>TypeError\<close> while the files are read, so that the row of the other file is not
  written either.
\<close>

theorem surplus_value_fails_row_write:
  "consolidate (members_in_order [''a'']) [[[''a''], [''1'', ''2'']]] =
     (Some ValueError, Some \<lparr>out_header = [''a''], out_rows = []\<rparr>)
 \<and> consolidate (members_in_order [''a'']) [[[''a''], [''1'']], []] = (Some TypeError, None)"
  by (simp add: consolidate_def fieldnames_def dict_rows_def next_record_def dict_zip_def
        dict_to_list_def members_in_order_def)

text \<open>
  C10, amended: when every input file has a header row and no data row has more values
  than its file's header row, and the list made of the header set enumerates that set,
  the script ends without an exception; the header is the union of the raw field names
  of all files; there is exactly one output row per non-blank data row, in the order
  of the files and, within a file, of its rows; and the keys of every record are in
  the header.
\<close>

theorem consolidate_rows:
  assumes wf: "\<forall>f \<in> set files. f \<noteq> [] \<and> (\<forall>row \<in> set (tl f). length row \<le> length (hd f))"
      and ord: "set (to_list (\<Union>f \<in> set files. set (hd f))) = (\<Union>f \<in> set files. set (hd f))"
  shows "consolidate to_list files =
           (None, Some \<lparr>out_header = to_list (\<Union>f \<in> set files. set (hd f)),
                        out_rows =
                          map (\<lambda>d. map (\<lambda>k. case map_of d (Some k) of None \<Rightarrow> Str [] | Some v \<Rightarrow> v)
                                     (to_list (\<Union>f \<in> set files. set (hd f))))
                            (concat (map (\<lambda>f. map (next_record (hd f))
                                                 (filter (\<lambda>row. row \<noteq> []) (tl f))) files))\<rparr>)
       \<and> map_option (\<lambda>out. length (out_rows out)) (snd (consolidate to_list files)) =
           Some (sum_list (map (\<lambda>f. length (filter (\<lambda>row. row \<noteq> []) (tl f))) files))
       \<and> (\<forall>d \<in> set (concat (map dict_rows files)).
            fst ` set d \<subseteq> Some ` set (to_list (\<Union>f \<in> set files. set (hd f))))"
proof -
  let ?H = "\<Union>f \<in> set files. set (hd f)"
  have r: "read_files files {} [] = Inr (?H, concat (map dict_rows files))"
    using wf read_files_ok [of files "{}" "[]"] by simp
  have k: "\<forall>d \<in> set (concat (map dict_rows files)). fst ` set d \<subseteq> Some ` set (to_list ?H)"
  proof
    fix d assume "d \<in> set (concat (map dict_rows files))"
    then obtain f where f: "f \<in> set files" "d \<in> set (dict_rows f)" by auto
    then have "fst ` set d \<subseteq> Some ` set (hd f)"
      using wf keys_dict_rows by blast
    moreover have "set (hd f) \<subseteq> ?H" using f(1) by blast
    ultimately show "fst ` set d \<subseteq> Some ` set (to_list ?H)"
      unfolding ord by blast
  qed
  have e: "concat (map dict_rows files) =
          concat (map (\<lambda>f. map (next_record (hd f)) (filter (\<lambda>row. row \<noteq> []) (tl f))) files)"
    by (rule arg_cong [where f = concat], rule map_cong) (simp_all add: dict_rows_def)
  have "consolidate to_list files =
           (None, Some \<lparr>out_header = to_list ?H,
                        out_rows =
                          map (\<lambda>d. map (\<lambda>k. case map_of d (Some k) of None \<Rightarrow> Str [] | Some v \<Rightarrow> v)
                                     (to_list ?H))
                            (concat (map dict_rows files))\<rparr>)"
    by (simp add: consolidate_def r write_rows_ok [OF k] Let_def)
  then show ?thesis
    using k by (simp add: e length_concat o_def)
qed

theorem consolidate_rows_witness:
  "consolidate (members_in_order [''id (S)'', ''name'', ''amount (N)'']) demo_input_dir =
     (None, Some \<lparr>out_header = [''id (S)'', ''name'', ''amount (N)''],
                  out_rows = [[Str ''1'', Str ''bob'', Str []],
                              [Str ''2'', PyNone, Str []],
                              [Str ''3'', Str [], Str ''30'']]\<rparr>)"
proof -
  have wf: "\<forall>f \<in> set demo_input_dir.
              f \<noteq> [] \<and> (\<forall>row \<in> set (tl f). length row \<le> length (hd f))"
    by (simp add: demo_input_dir_def)
  have ord: "set (members_in_order [''id (S)'', ''name'', ''amount (N)'']
                    (\<Union>f \<in> set demo_input_dir. set (hd f))) =
             (\<Union>f \<in> set demo_input_dir. set (hd f))"
    unfolding demo_header_fields by (simp add: members_in_order_def)
  have l: "members_in_order [''id (S)'', ''name'', ''amount (N)'']
             {''id (S)'', ''name'', ''amount (N)''} = [''id (S)'', ''name'', ''amount (N)'']"
    by (simp add: members_in_order_def)
  have r: "concat (map (\<lambda>f. map (next_record (hd f)) (filter (\<lambda>row. row \<noteq> []) (tl f)))
                     demo_input_dir) =
           [[(Some ''id (S)'', Str ''1''), (Some ''name'', Str ''bob'')],
            [(Some ''id (S)'', Str ''2''), (Some ''name'', PyNone)],
            [(Some ''id (S)'', Str ''3''), (Some ''amount (N)'', Str ''30'')]]"
    by (simp add: demo_input_dir_def next_record_def dict_zip_def)
  show ?thesis
    using consolidate_rows
            [of demo_input_dir "members_in_order [''id (S)'', ''name'', ''amount (N)'']",
             OF wf ord, THEN conjunct1]
    unfolding demo_header_fields l r by simp
qed

section \<open>Properties of the bucket listing and download\<close>

lemma world_emit [simp]:
  "trace (emit e w) = trace w @ [e]" "fs (emit e w) = fs w" "environ (emit e w) = environ w"
  "getcwd (emit e w) = getcwd w" "buckets (emit e w) = buckets w"
  "enumerations (emit e w) = enumerations w"
  "object_body (emit e w) = object_body w" "user_directory (emit e w) = user_directory w"
  by (simp_all add: emit_def)

lemma world_log_info [simp]:
  "fs (log_info self m w) = fs w" "environ (log_info self m w) = environ w"
  "getcwd (log_info self m w) = getcwd w" "buckets (log_info self m w) = buckets w"
  "enumerations (log_info self m w) = enumerations w"
  "object_body (log_info self m w) = object_body w"
  "user_directory (log_info self m w) = user_directory w"
  by (simp_all add: log_info_def)

lemma is_call_log_info [simp]:
  "filter is_call (trace (log_info self m w)) = filter is_call (trace w)"
  by (simp add: log_info_def)

lemma downloads_append [simp]: "downloads (xs @ ys) = downloads xs @ downloads ys"
  by (induction xs rule: downloads.induct) simp_all

lemma issued_filters_append [simp]:
  "issued_filters (xs @ ys) = issued_filters xs @ issued_filters ys"
  by (induction xs rule: issued_filters.induct) simp_all

lemma downloads_log_info [simp]: "downloads (trace (log_info self m w)) = downloads (trace w)"
  by (simp add: log_info_def)

lemma issued_filters_log_info [simp]:
  "issued_filters (trace (log_info self m w)) = issued_filters (trace w)"
  by (simp add: log_info_def)

lemma downloads_makedirs [simp]: "downloads (trace (makedirs d w)) = downloads (trace w)"
  by (simp add: makedirs_def)

lemma objects_all_result [simp]:
  "fst (objects_all b w) = buckets w b (enumerations w)"
  "trace (snd (objects_all b w)) = trace w @ [ObjectsAll b]"
  "enumerations (snd (objects_all b w)) = Suc (enumerations w)"
  "buckets (snd (objects_all b w)) = buckets w"
  "fs (snd (objects_all b w)) = fs w" "getcwd (snd (objects_all b w)) = getcwd w"
  "environ (snd (objects_all b w)) = environ w"
  "object_body (snd (objects_all b w)) = object_body w"
  "user_directory (snd (objects_all b w)) = user_directory w"
  by (simp_all add: objects_all_def)

lemma count_matching_Some:
  "count_matching xs (Some p) n = Inr (n + length (filter (\<lambda>x. prefix p (key x)) xs))"
  by (induction xs arbitrary: n) (simp_all add: startswith_def)

lemma collect_matching_Some:
  "collect_matching xs (Some p) items =
     Inr (items @ map (\<lambda>x. \<lparr>bucket_name = object_bucket_name x, bucket_key = key x\<rparr>)
                    (filter (\<lambda>x. prefix p (key x)) xs))"
  by (induction xs arbitrary: items) (simp_all add: startswith_def)

lemma count_matching_None:
  "count_matching xs None n = (if xs = [] then Inr n else Inl TypeError)"
  by (cases xs) (simp_all add: startswith_def)

lemma collect_matching_None:
  "collect_matching xs None items = (if xs = [] then Inr items else Inl TypeError)"
  by (cases xs) (simp_all add: startswith_def)

lemma fst_get_s3_bucket_list_Some:
  "fst (get_s3_bucket_list self b (Some p) w) =
     Inr \<lparr>bucket_size =
            length (filter (\<lambda>x. prefix p (key x)) (buckets w b (enumerations w))),
          bucket_items = map (\<lambda>x. \<lparr>bucket_name = object_bucket_name x, bucket_key = key x\<rparr>)
                           (filter (\<lambda>x. prefix p (key x))
                              (buckets w b (Suc (enumerations w))))\<rparr>"
  by (simp add: get_s3_bucket_list_def Let_def objects_all_def count_matching_Some
        collect_matching_Some)

lemma fst_get_s3_bucket_list_None:
  "fst (get_s3_bucket_list self b None w) =
     (if buckets w b (enumerations w) = [] \<and> buckets w b (Suc (enumerations w)) = []
      then Inr \<lparr>bucket_size = 0, bucket_items = []\<rparr> else Inl TypeError)"
  by (simp add: get_s3_bucket_list_def Let_def objects_all_def count_matching_None
        collect_matching_None)

lemma get_s3_bucket_list_frame [simp]:
  "fs (snd (get_s3_bucket_list self b k w)) = fs w"
  "getcwd (snd (get_s3_bucket_list self b k w)) = getcwd w"
  "downloads (trace (snd (get_s3_bucket_list self b k w))) = downloads (trace w)"
  by (simp_all add: get_s3_bucket_list_def Let_def objects_all_def
        split: prod.splits sum.splits)


lemma demo_listing:
  "fst (get_s3_bucket_list demo_downloader ''photos'' (Some p) (demo_world env)) =
     Inr \<lparr>bucket_size = length (filter (\<lambda>x. prefix p (key x)) (demo_bucket ''photos'')),
          bucket_items = map (\<lambda>x. \<lparr>bucket_name = object_bucket_name x, bucket_key = key x\<rparr>)
                           (filter (\<lambda>x. prefix p (key x)) (demo_bucket ''photos''))\<rparr>"
  by (simp add: fst_get_s3_bucket_list_Some demo_world_def)

text \<open>
  C4: with the empty prefix the listing holds every object that the collecting
  enumeration finds in the bucket, in the bucket's order; with a prefix \<open>p\<close> it holds
  exactly those of these objects whose key has \<open>p\<close> as a prefix, character by character
  (so upper and lower case differ). \<open>bucket_size\<close> is the number of such objects that
  the counting enumeration finds.
\<close>

theorem listing_filters_by_prefix:
  "fst (get_s3_bucket_list self b (Some []) w) =
     Inr \<lparr>bucket_size = length (buckets w b (enumerations w)),
          bucket_items = map (\<lambda>x. \<lparr>bucket_name = object_bucket_name x, bucket_key = key x\<rparr>)
                           (buckets w b (Suc (enumerations w)))\<rparr>
   \<and> fst (get_s3_bucket_list self b (Some p) w) =
     Inr \<lparr>bucket_size =
            length (filter (\<lambda>x. prefix p (key x)) (buckets w b (enumerations w))),
          bucket_items = map (\<lambda>x. \<lparr>bucket_name = object_bucket_name x, bucket_key = key x\<rparr>)
                           (filter (\<lambda>x. prefix p (key x))
                              (buckets w b (Suc (enumerations w))))\<rparr>"
  by (simp add: fst_get_s3_bucket_list_Some)

theorem listing_filters_by_prefix_witness:
  "fst (get_s3_bucket_list demo_downloader ''photos'' (Some []) (demo_world [])) =
     Inr \<lparr>bucket_size = 4,
          bucket_items =
            [\<lparr>bucket_name = ''photos'', bucket_key = ''a/b/c.txt''\<rparr>,
             \<lparr>bucket_name = ''photos'', bucket_key = ''a/d.txt''\<rparr>,
             \<lparr>bucket_name = ''photos'', bucket_key = ''A/e.txt''\<rparr>,
             \<lparr>bucket_name = ''photos'', bucket_key = ''z.txt''\<rparr>]\<rparr>
   \<and> fst (get_s3_bucket_list demo_downloader ''photos'' (Some ''a/'') (demo_world [])) =
     Inr \<lparr>bucket_size = 2,
          bucket_items =
            [\<lparr>bucket_name = ''photos'', bucket_key = ''a/b/c.txt''\<rparr>,
             \<lparr>bucket_name = ''photos'', bucket_key = ''a/d.txt''\<rparr>]\<rparr>"
  using listing_filters_by_prefix [of demo_downloader "''photos''" "demo_world []" "''a/''"]
  by (simp add: demo_world_def demo_bucket_def)

text \<open>
  C5, as stated, fails: the count comes from one enumeration of the bucket and the
  items from a second one, and the bucket can change in between. Here an object is
  added to the bucket after the counting pass: \<open>bucket_size\<close> is 4 and \<open>bucket_items\<close>
  has 5 entries.
\<close>

theorem listing_count_differs_when_bucket_changes:
  "fst (get_s3_bucket_list demo_downloader ''photos'' (Some []) demo_growing_world) =
     Inr \<lparr>bucket_size = 4,
          bucket_items =
            [\<lparr>bucket_name = ''photos'', bucket_key = ''a/b/c.txt''\<rparr>,
             \<lparr>bucket_name = ''photos'', bucket_key = ''a/d.txt''\<rparr>,
             \<lparr>bucket_name = ''photos'', bucket_key = ''A/e.txt''\<rparr>,
             \<lparr>bucket_name = ''photos'', bucket_key = ''z.txt''\<rparr>,
             \<lparr>bucket_name = ''photos'', bucket_key = ''new.txt''\<rparr>]\<rparr>"
  by (simp add: fst_get_s3_bucket_list_Some demo_growing_world_def demo_world_def
        demo_growing_bucket_def demo_bucket_def)

text \<open>
  C5, amended: when the two enumerations of the call find the same objects in the
  bucket, the listing is returned for every prefix string, and in every returned
  listing (also the one that the call returns when no prefix string is passed and the
  bucket is empty) \<open>bucket_size\<close> is the length of \<open>bucket_items\<close>.
\<close>

theorem listing_count_is_length:
  assumes "buckets w b (enumerations w) = buckets w b (Suc (enumerations w))"
  shows "(\<exists>r. fst (get_s3_bucket_list self b (Some p) w) = Inr r)
   \<and> (\<forall>r. fst (get_s3_bucket_list self b k w) = Inr r \<longrightarrow> bucket_size r = length (bucket_items r))"
proof (cases k)
  case None
  then show ?thesis
    by (auto simp: fst_get_s3_bucket_list_Some fst_get_s3_bucket_list_None split: if_splits)
next
  case (Some q)
  then show ?thesis
    using assms by (auto simp: fst_get_s3_bucket_list_Some)
qed

theorem listing_count_is_length_witness:
  "fst (get_s3_bucket_list demo_downloader ''photos'' (Some ''a/b'') (demo_world [])) =
     Inr \<lparr>bucket_size = 1,
          bucket_items = [\<lparr>bucket_name = ''photos'', bucket_key = ''a/b/c.txt''\<rparr>]\<rparr>
   \<and> bucket_size \<lparr>bucket_size = 1,
          bucket_items = [\<lparr>bucket_name = ''photos'', bucket_key = ''a/b/c.txt''\<rparr>]\<rparr> =
     length (bucket_items \<lparr>bucket_size = 1,
          bucket_items = [\<lparr>bucket_name = ''photos'', bucket_key = ''a/b/c.txt''\<rparr>]\<rparr>)"
proof -
  have s: "buckets (demo_world []) ''photos'' (enumerations (demo_world [])) =
           buckets (demo_world []) ''photos'' (Suc (enumerations (demo_world [])))"
    by (simp add: demo_world_def)
  have l: "fst (get_s3_bucket_list demo_downloader ''photos'' (Some ''a/b'') (demo_world [])) =
     Inr \<lparr>bucket_size = 1,
          bucket_items = [\<lparr>bucket_name = ''photos'', bucket_key = ''a/b/c.txt''\<rparr>]\<rparr>"
    by (simp add: demo_listing demo_bucket_def)
  show ?thesis
    using listing_count_is_length
            [OF s, of demo_downloader "''a/b''" "Some ''a/b''"] l
    by simp
qed



lemma replace_char: "replace [a] [b] s = map (\<lambda>c. if c = a then b else c) s"
  by (induction s) auto

lemma get_items_downloads:
  "downloads (trace (get_items self items tf w)) =
     downloads (trace w) @
     map (\<lambda>i. (bucket_name i, bucket_key i, tf @ ''/'' @ replace ''/'' ''_'' (bucket_key i))) items"
  by (induction items arbitrary: w) (simp_all add: get_s3_bucket_item_def Let_def)

lemma get_s3_bucket_downloads:
  "downloads (trace (snd (get_s3_bucket self b (Some p) tf w))) =
     downloads (trace w) @
     (if filter (\<lambda>x. prefix p (key x)) (buckets w b (enumerations w)) = [] then []
      else
        map (\<lambda>x. (object_bucket_name x, key x,
               (case (if truthy tf then tf else None) of Some t \<Rightarrow> t | None \<Rightarrow> getcwd w @ ''/'' @ b)
               @ ''/'' @ replace ''/'' ''_'' (key x)))
          (filter (\<lambda>x. prefix p (key x)) (buckets w b (Suc (enumerations w)))))"
proof -
  let ?r = "\<lparr>bucket_size =
            length (filter (\<lambda>x. prefix p (key x)) (buckets w b (enumerations w))),
          bucket_items = map (\<lambda>x. \<lparr>bucket_name = object_bucket_name x, bucket_key = key x\<rparr>)
                           (filter (\<lambda>x. prefix p (key x))
                              (buckets w b (Suc (enumerations w))))\<rparr>"
  have f: "fst (get_s3_bucket_list self b (Some p) w) = Inr ?r"
    by (rule fst_get_s3_bucket_list_Some)
  obtain w1 where l: "get_s3_bucket_list self b (Some p) w = (Inr ?r, w1)"
    using f by (cases "get_s3_bucket_list self b (Some p) w") simp
  have "w1 = snd (get_s3_bucket_list self b (Some p) w)" by (simp add: l)
  then have w1: "downloads (trace w1) = downloads (trace w)" "getcwd w1 = getcwd w"
    by simp_all
  show ?thesis
  proof (cases "filter (\<lambda>x. prefix p (key x)) (buckets w b (enumerations w)) = []")
    case True
    then show ?thesis by (simp add: get_s3_bucket_def l w1)
  next
    case False
    then show ?thesis
      by (cases tf) (simp_all add: get_s3_bucket_def l w1 Let_def get_items_downloads o_def)
  qed
qed

text \<open>
  C7: \<open>_get_s3_bucket_item\<close> writes the object's content to the file
  \<open>target_folder/name\<close>, where \<open>name\<close> is the key with every \<open>/\<close> turned into
  \<open>_\<close>; the name holds no \<open>/\<close>, so the file lies directly in the folder; the key
  \<open>a/b/c.txt\<close> gives \<open>a_b_c.txt\<close>. The downloads of \<open>get_s3_bucket\<close> are those of
  the listed objects, in order, to such files under \<open>cwd/bucket\<close> when no target
  folder is given, and under the target folder when a non-empty one is given (the
  listed objects are the matching ones of the collecting enumeration; there is no
  download when the counting enumeration finds no matching object).
\<close>

theorem download_file_names:
  "fs (get_s3_bucket_item self b k folder w) =
     (fs w)(folder @ ''/'' @ map (\<lambda>c. if c = CHR ''/'' then CHR ''_'' else c) k
            \<mapsto> File (object_body w b k))
 \<and> downloads (trace (get_s3_bucket_item self b k folder w)) =
     downloads (trace w) @
       [(b, k, folder @ ''/'' @ map (\<lambda>c. if c = CHR ''/'' then CHR ''_'' else c) k)]
 \<and> CHR ''/'' \<notin> set (replace ''/'' ''_'' k)
 \<and> replace ''/'' ''_'' ''a/b/c.txt'' = ''a_b_c.txt''
 \<and> downloads (trace (snd (get_s3_bucket self b (Some p) None w))) =
     downloads (trace w) @
     (if filter (\<lambda>x. prefix p (key x)) (buckets w b (enumerations w)) = [] then []
      else
        map (\<lambda>x. (object_bucket_name x, key x,
               getcwd w @ ''/'' @ b @ ''/'' @
               map (\<lambda>c. if c = CHR ''/'' then CHR ''_'' else c) (key x)))
          (filter (\<lambda>x. prefix p (key x)) (buckets w b (Suc (enumerations w)))))
 \<and> (t \<noteq> [] \<longrightarrow>
     downloads (trace (snd (get_s3_bucket self b (Some p) (Some t) w))) =
     downloads (trace w) @
     (if filter (\<lambda>x. prefix p (key x)) (buckets w b (enumerations w)) = [] then []
      else
        map (\<lambda>x. (object_bucket_name x, key x,
               t @ ''/'' @ map (\<lambda>c. if c = CHR ''/'' then CHR ''_'' else c) (key x)))
          (filter (\<lambda>x. prefix p (key x)) (buckets w b (Suc (enumerations w))))))"
proof (intro conjI impI)
  show "fs (get_s3_bucket_item self b k folder w) =
     (fs w)(folder @ ''/'' @ map (\<lambda>c. if c = CHR ''/'' then CHR ''_'' else c) k
            \<mapsto> File (object_body w b k))"
    by (simp add: get_s3_bucket_item_def Let_def replace_char)
  show "downloads (trace (get_s3_bucket_item self b k folder w)) =
     downloads (trace w) @
       [(b, k, folder @ ''/'' @ map (\<lambda>c. if c = CHR ''/'' then CHR ''_'' else c) k)]"
    by (simp add: get_s3_bucket_item_def Let_def replace_char)
  show "CHR ''/'' \<notin> set (replace ''/'' ''_'' k)"
    by (auto simp: replace_char)
  show "replace ''/'' ''_'' ''a/b/c.txt'' = ''a_b_c.txt''"
    by (simp add: replace_char)
  show "downloads (trace (snd (get_s3_bucket self b (Some p) None w))) =
     downloads (trace w) @
     (if filter (\<lambda>x. prefix p (key x)) (buckets w b (enumerations w)) = [] then []
      else
        map (\<lambda>x. (object_bucket_name x, key x,
               getcwd w @ ''/'' @ b @ ''/'' @
               map (\<lambda>c. if c = CHR ''/'' then CHR ''_'' else c) (key x)))
          (filter (\<lambda>x. prefix p (key x)) (buckets w b (Suc (enumerations w)))))"
    by (simp add: get_s3_bucket_downloads truthy_def replace_char)
next
  assume "t \<noteq> []"
  then show "downloads (trace (snd (get_s3_bucket self b (Some p) (Some t) w))) =
     downloads (trace w) @
     (if filter (\<lambda>x. prefix p (key x)) (buckets w b (enumerations w)) = [] then []
      else
        map (\<lambda>x. (object_bucket_name x, key x,
               t @ ''/'' @ map (\<lambda>c. if c = CHR ''/'' then CHR ''_'' else c) (key x)))
          (filter (\<lambda>x. prefix p (key x)) (buckets w b (Suc (enumerations w)))))"
    by (simp add: get_s3_bucket_downloads truthy_def replace_char)
qed

theorem download_file_names_witness:
  "downloads (trace (snd (get_s3_bucket demo_downloader ''photos'' (Some ''a/'') None
                            (demo_world [])))) =
     [(''photos'', ''a/b/c.txt'', ''/home/user/photos/a_b_c.txt''),
      (''photos'', ''a/d.txt'', ''/home/user/photos/a_d.txt'')]
 \<and> downloads (trace (snd (get_s3_bucket demo_downloader ''photos'' (Some ''a/'')
                            (Some ''/tmp/out'') (demo_world [])))) =
     [(''photos'', ''a/b/c.txt'', ''/tmp/out/a_b_c.txt''),
      (''photos'', ''a/d.txt'', ''/tmp/out/a_d.txt'')]"
  using download_file_names
          [of demo_downloader "''photos''" "''a/b/c.txt''" "''/tmp/out''" "demo_world []"
              "''a/''" "''/tmp/out''"]
  by (simp add: demo_world_def demo_bucket_def)

text \<open>
  C2 (the code departs from the claim). The claim: without \<^verbatim>\<open>--bucket-key\<close> the tool
  behaves as with the empty prefix and raises nothing. \<^verbatim>\<open>--bucket-key\<close> is declared
  without a default, so the namespace holds \<^verbatim>\<open>None\<close>, and \<open>main\<close> passes it on in
  place of the \<^verbatim>\<open>''\<close> that \<open>get_s3_bucket_list\<close> and \<open>get_s3_bucket\<close> have as their
  default. On a bucket with objects both the dry run and the download end with
  \<^verbatim>\<open>TypeError\<close>, and nothing is downloaded; with \<^verbatim>\<open>--bucket-key ''\<close> the same calls
  print the full listing and download every object.
\<close>

theorem omitted_bucket_key_raises:
  "fst (aws_s3_main [(''--bucket'', Some ''photos''), (''--profile'', Some ''dev''),
                      (''--dryrun'', None)] (demo_world [])) = Inl TypeError
 \<and> fst (aws_s3_main [(''--bucket'', Some ''photos''), (''--profile'', Some ''dev'')]
          (demo_world [])) = Inl TypeError
 \<and> downloads (trace (snd (aws_s3_main [(''--bucket'', Some ''photos''),
          (''--profile'', Some ''dev'')] (demo_world [])))) = []
 \<and> fst (aws_s3_main [(''--bucket'', Some ''photos''), (''--bucket-key'', Some []),
                      (''--profile'', Some ''dev''), (''--dryrun'', None)] (demo_world [])) =
     Inr ()
 \<and> filter is_call (trace (snd (aws_s3_main [(''--bucket'', Some ''photos''),
          (''--bucket-key'', Some []), (''--profile'', Some ''dev''), (''--dryrun'', None)]
          (demo_world [])))) =
     [SetupDefaultSession ''dev'', Boto3Resource ''s3'' None,
      ObjectsAll ''photos'', ObjectsAll ''photos'']
 \<and> downloads (trace (snd (aws_s3_main [(''--bucket'', Some ''photos''),
          (''--bucket-key'', Some []), (''--profile'', Some ''dev'')] (demo_world [])))) =
     [(''photos'', ''a/b/c.txt'', ''/home/user/photos/a_b_c.txt''),
      (''photos'', ''a/d.txt'', ''/home/user/photos/a_d.txt''),
      (''photos'', ''A/e.txt'', ''/home/user/photos/A_e.txt''),
      (''photos'', ''z.txt'', ''/home/user/photos/z.txt'')]"
  by (simp add: aws_s3_main_def parse_args_def has_flag_def AwsS3Download_init_def
        get_s3_client_def truthy_def get_s3_bucket_list_def get_s3_bucket_def startswith_def
        demo_world_def demo_bucket_def emit_def log_info_def Let_def objects_all_def
        AwsS3Download_AWS_SERVICE_def get_s3_bucket_item_def makedirs_def)

section \<open>Properties of the credentials and of the user lookup\<close>

lemma get_aws_credentials_region:
  "getenv env ''AWS_DEFAULT_REGION'' (getenv env ''AWS_REGION'' []) = [] \<Longrightarrow>
   get_aws_credentials env =
     Inl (AwsConfigException ''Environment variable [AWS_DEFAULT_REGION | AWS_REGION] not set'')"
  by (simp add: get_aws_credentials_def)

lemma get_aws_credentials_access_key:
  "getenv env ''AWS_DEFAULT_REGION'' (getenv env ''AWS_REGION'' []) \<noteq> [] \<Longrightarrow>
   getenv env ''AWS_ACCESS_KEY_ID_DEV'' [] = [] \<Longrightarrow>
   get_aws_credentials env =
     Inl (AwsConfigException ''Environment variable AWS_ACCESS_KEY_ID_DEV not set'')"
  by (simp add: get_aws_credentials_def)

lemma get_aws_credentials_secret_key:
  "getenv env ''AWS_DEFAULT_REGION'' (getenv env ''AWS_REGION'' []) \<noteq> [] \<Longrightarrow>
   getenv env ''AWS_ACCESS_KEY_ID_DEV'' [] \<noteq> [] \<Longrightarrow>
   getenv env ''AWS_SECRET_ACCESS_KEY_DEV'' [] = [] \<Longrightarrow>
   get_aws_credentials env =
     Inl (AwsConfigException ''Environment variable AWS_SECRET_ACCESS_KEY_DEV not set'')"
  by (simp add: get_aws_credentials_def)

lemma get_aws_credentials_ok:
  "getenv env ''AWS_DEFAULT_REGION'' (getenv env ''AWS_REGION'' []) \<noteq> [] \<Longrightarrow>
   getenv env ''AWS_ACCESS_KEY_ID_DEV'' [] \<noteq> [] \<Longrightarrow>
   getenv env ''AWS_SECRET_ACCESS_KEY_DEV'' [] \<noteq> [] \<Longrightarrow>
   get_aws_credentials env =
     Inr \<lparr>aws_access_key_id = getenv env ''AWS_ACCESS_KEY_ID_DEV'' [],
          aws_secret_access_key = getenv env ''AWS_SECRET_ACCESS_KEY_DEV'' [],
          aws_region_name = getenv env ''AWS_DEFAULT_REGION'' (getenv env ''AWS_REGION'' [])\<rparr>"
  by (simp add: get_aws_credentials_def)

lemma getenv_empty_iff: "getenv env name [] = [] \<longleftrightarrow> env name = None \<or> env name = Some []"
  by (simp add: getenv_def split: option.splits)

lemma region_empty_iff:
  "getenv env ''AWS_DEFAULT_REGION'' (getenv env ''AWS_REGION'' []) = [] \<longleftrightarrow>
     env ''AWS_DEFAULT_REGION'' = Some [] \<or>
     (env ''AWS_DEFAULT_REGION'' = None \<and>
      (env ''AWS_REGION'' = None \<or> env ''AWS_REGION'' = Some []))"
  by (auto simp: getenv_def split: option.splits)

text \<open>
  C3, as stated, fails: \<^verbatim>\<open>AWS_DEFAULT_REGION\<close> set to the empty string hides a
  non-empty \<^verbatim>\<open>AWS_REGION\<close>, since \<^verbatim>\<open>os.getenv\<close> falls back to its default only
  for an absent variable; the region is then empty and the configuration error is
  raised.
\<close>

theorem empty_primary_hides_secondary:
  "get_aws_credentials (map_of
      [(''AWS_DEFAULT_REGION'', []), (''AWS_REGION'', ''eu-west-1''),
       (''AWS_ACCESS_KEY_ID_DEV'', ''AKIA''), (''AWS_SECRET_ACCESS_KEY_DEV'', ''secret'')]) =
     Inl (AwsConfigException ''Environment variable [AWS_DEFAULT_REGION | AWS_REGION] not set'')"
  by (simp add: get_aws_credentials_def getenv_def)

text \<open>
  C3, amended: with the two keys set, a non-empty \<^verbatim>\<open>AWS_DEFAULT_REGION\<close> is the
  region, whatever \<^verbatim>\<open>AWS_REGION\<close> is; when \<^verbatim>\<open>AWS_DEFAULT_REGION\<close> is absent, a
  non-empty \<^verbatim>\<open>AWS_REGION\<close> is the region; when \<^verbatim>\<open>AWS_DEFAULT_REGION\<close> is present
  and empty, \<^verbatim>\<open>AWS_REGION\<close> is not looked at and the region error is raised.
\<close>

theorem region_primary_then_secondary:
  assumes "env ''AWS_ACCESS_KEY_ID_DEV'' = Some a" and "a \<noteq> []"
      and "env ''AWS_SECRET_ACCESS_KEY_DEV'' = Some s" and "s \<noteq> []"
  shows "(env ''AWS_DEFAULT_REGION'' = Some r \<and> r \<noteq> [] \<longrightarrow>
            get_aws_credentials env =
              Inr \<lparr>aws_access_key_id = a, aws_secret_access_key = s, aws_region_name = r\<rparr>)
       \<and> (env ''AWS_DEFAULT_REGION'' = None \<and> env ''AWS_REGION'' = Some r \<and> r \<noteq> [] \<longrightarrow>
            get_aws_credentials env =
              Inr \<lparr>aws_access_key_id = a, aws_secret_access_key = s, aws_region_name = r\<rparr>)
       \<and> (env ''AWS_DEFAULT_REGION'' = Some [] \<longrightarrow>
            get_aws_credentials env =
              Inl (AwsConfigException
                ''Environment variable [AWS_DEFAULT_REGION | AWS_REGION] not set''))"
  using assms by (simp add: get_aws_credentials_def getenv_def)

theorem region_primary_then_secondary_witness:
  "get_aws_credentials (map_of
      [(''AWS_DEFAULT_REGION'', ''us-east-1''), (''AWS_REGION'', ''eu-west-1''),
       (''AWS_ACCESS_KEY_ID_DEV'', ''AKIA''), (''AWS_SECRET_ACCESS_KEY_DEV'', ''secret'')]) =
     Inr \<lparr>aws_access_key_id = ''AKIA'', aws_secret_access_key = ''secret'',
          aws_region_name = ''us-east-1''\<rparr>
   \<and> get_aws_credentials (map_of
      [(''AWS_REGION'', ''eu-west-1''),
       (''AWS_ACCESS_KEY_ID_DEV'', ''AKIA''), (''AWS_SECRET_ACCESS_KEY_DEV'', ''secret'')]) =
     Inr \<lparr>aws_access_key_id = ''AKIA'', aws_secret_access_key = ''secret'',
          aws_region_name = ''eu-west-1''\<rparr>
   \<and> get_aws_credentials (map_of
      [(''AWS_DEFAULT_REGION'', []),
       (''AWS_ACCESS_KEY_ID_DEV'', ''AKIA''), (''AWS_SECRET_ACCESS_KEY_DEV'', ''secret'')]) =
     Inl (AwsConfigException ''Environment variable [AWS_DEFAULT_REGION | AWS_REGION] not set'')"
  using
    region_primary_then_secondary [of "map_of
      [(''AWS_DEFAULT_REGION'', ''us-east-1''), (''AWS_REGION'', ''eu-west-1''),
       (''AWS_ACCESS_KEY_ID_DEV'', ''AKIA''), (''AWS_SECRET_ACCESS_KEY_DEV'', ''secret'')]"
      "''AKIA''" "''secret''" "''us-east-1''"]
    region_primary_then_secondary [of "map_of
      [(''AWS_REGION'', ''eu-west-1''),
       (''AWS_ACCESS_KEY_ID_DEV'', ''AKIA''), (''AWS_SECRET_ACCESS_KEY_DEV'', ''secret'')]"
      "''AKIA''" "''secret''" "''eu-west-1''"]
    region_primary_then_secondary [of "map_of
      [(''AWS_DEFAULT_REGION'', []),
       (''AWS_ACCESS_KEY_ID_DEV'', ''AKIA''), (''AWS_SECRET_ACCESS_KEY_DEV'', ''secret'')]"
      "''AKIA''" "''secret''" "''eu-west-1''"]
  by simp

text \<open>
  C9: the filter expression that \<open>get_user_details\<close> hands to \<^verbatim>\<open>list_users\<close> is
  \<^verbatim>\<open>username = "<username>"\<close> (the character \<open>0x22\<close> is the double quote), whatever
  the object and the state of the process are; a second lookup, by the same or by
  another object, in the state that the first one left, issues the same expression
  again; and the answer is that of the user directory for the object's pool and this
  expression.
\<close>

theorem lookup_filter:
  "issued_filters (trace (snd (get_user_details self u w))) =
     issued_filters (trace w) @ [''username = '' @ [CHR 0x22] @ u @ [CHR 0x22]]
 \<and> issued_filters (trace (snd (get_user_details self' u (snd (get_user_details self u w))))) =
     issued_filters (trace w) @
       [''username = '' @ [CHR 0x22] @ u @ [CHR 0x22], ''username = '' @ [CHR 0x22] @ u @ [CHR 0x22]]
 \<and> fst (get_user_details self u w) =
     user_directory w (user_pool_id self) (''username = '' @ [CHR 0x22] @ u @ [CHR 0x22])"
  by (simp add: get_user_details_def Let_def)

theorem lookup_filter_witness:
  "issued_filters (trace (snd (get_user_details demo_lookup ''bob''
      (snd (get_user_details demo_lookup ''bob'' (demo_world [])))))) =
     [''username = '' @ [CHR 0x22] @ ''bob'' @ [CHR 0x22],
      ''username = '' @ [CHR 0x22] @ ''bob'' @ [CHR 0x22]]"
  using lookup_filter [of demo_lookup "''bob''" "demo_world []" demo_lookup]
  by (simp add: demo_world_def)

lemma init_s3_fails:
  assumes "get_aws_credentials (environ w) = Inl e" and "\<not> truthy profile"
  shows "fst (AwsS3Download_init profile v w) = Inl e"
    and "filter is_call (trace (snd (AwsS3Download_init profile v w))) = filter is_call (trace w)"
    and "fs (snd (AwsS3Download_init profile v w)) = fs w"
  using assms
  by (simp_all add: AwsS3Download_init_def get_s3_client_def
        AwsS3Download_get_aws_credentials_def Let_def)

lemma init_cognito_fails:
  assumes "get_aws_credentials (environ w) = Inl e" and "\<not> truthy profile"
  shows "AwsCognitoUser_init pool profile v w = (Inl e, w)"
  using assms by (simp add: AwsCognitoUser_init_def get_aws_client_def)

lemma main_s3_fails:
  assumes "get_aws_credentials (environ w) = Inl e" and "parse_args av = Inr a"
      and "\<not> truthy (args_profile a)"
  shows "fst (aws_s3_main av w) = Inl e
       \<and> filter is_call (trace (snd (aws_s3_main av w))) = filter is_call (trace w)
       \<and> fs (snd (aws_s3_main av w)) = fs w"
proof -
  obtain w1 where i: "AwsS3Download_init (args_profile a) (args_verbose a) w = (Inl e, w1)"
    using init_s3_fails(1) [OF assms(1,3), of "args_verbose a"]
    by (cases "AwsS3Download_init (args_profile a) (args_verbose a) w") simp
  have "w1 = snd (AwsS3Download_init (args_profile a) (args_verbose a) w)"
    by (simp add: i)
  then have "filter is_call (trace w1) = filter is_call (trace w)" "fs w1 = fs w"
    using init_s3_fails(2,3) [OF assms(1,3), of "args_verbose a"] by simp_all
  then show ?thesis
    by (simp add: aws_s3_main_def assms(2) i)
qed

lemma main_cognito_fails:
  assumes "get_aws_credentials (environ w) = Inl e"
      and "get_opt ''--username'' av = Some u" and "get_opt ''--cognito-userpool'' av = Some p"
      and "\<not> truthy (get_opt ''--profile'' av)"
  shows "aws_cognito_users_main av w = (Inl e, w)"
  using assms by (simp add: aws_cognito_users_main_def init_cognito_fails)

text \<open>
  C8: the variables are checked in the order region, access key, secret key. An empty
  region (the primary variable empty, or absent with the secondary absent or empty)
  raises the error that names \<^verbatim>\<open>[AWS_DEFAULT_REGION | AWS_REGION]\<close>, whatever the
  keys are; with a region, an absent or empty access key raises the error that names
  \<^verbatim>\<open>AWS_ACCESS_KEY_ID_DEV\<close>, whatever the secret key is; with both, an absent or
  empty secret key raises the error that names \<^verbatim>\<open>AWS_SECRET_ACCESS_KEY_DEV\<close>; the
  three messages differ. A credentials record is returned only when all three are set
  and non-empty, and holds their values. When the credentials are read (no profile is
  given) and one is missing, \<open>main\<close> of the S3 tool ends with that error, the file
  system is as before and no call to the SDK has been made; \<open>main\<close> of the user lookup
  ends with that error in an unchanged state.
\<close>

theorem missing_variable_errors:
  "(env ''AWS_DEFAULT_REGION'' = Some [] \<or>
      (env ''AWS_DEFAULT_REGION'' = None \<and>
       (env ''AWS_REGION'' = None \<or> env ''AWS_REGION'' = Some []))
    \<longrightarrow> get_aws_credentials env =
          Inl (AwsConfigException
            ''Environment variable [AWS_DEFAULT_REGION | AWS_REGION] not set''))
 \<and> (getenv env ''AWS_DEFAULT_REGION'' (getenv env ''AWS_REGION'' []) \<noteq> [] \<and>
      (env ''AWS_ACCESS_KEY_ID_DEV'' = None \<or> env ''AWS_ACCESS_KEY_ID_DEV'' = Some [])
    \<longrightarrow> get_aws_credentials env =
          Inl (AwsConfigException ''Environment variable AWS_ACCESS_KEY_ID_DEV not set''))
 \<and> (getenv env ''AWS_DEFAULT_REGION'' (getenv env ''AWS_REGION'' []) \<noteq> [] \<and>
      getenv env ''AWS_ACCESS_KEY_ID_DEV'' [] \<noteq> [] \<and>
      (env ''AWS_SECRET_ACCESS_KEY_DEV'' = None \<or> env ''AWS_SECRET_ACCESS_KEY_DEV'' = Some [])
    \<longrightarrow> get_aws_credentials env =
          Inl (AwsConfigException ''Environment variable AWS_SECRET_ACCESS_KEY_DEV not set''))
 \<and> ''Environment variable [AWS_DEFAULT_REGION | AWS_REGION] not set'' \<noteq>
      ''Environment variable AWS_ACCESS_KEY_ID_DEV not set''
 \<and> ''Environment variable [AWS_DEFAULT_REGION | AWS_REGION] not set'' \<noteq>
      ''Environment variable AWS_SECRET_ACCESS_KEY_DEV not set''
 \<and> ''Environment variable AWS_ACCESS_KEY_ID_DEV not set'' \<noteq>
      ''Environment variable AWS_SECRET_ACCESS_KEY_DEV not set''
 \<and> (get_aws_credentials env = Inr c \<longrightarrow>
        env ''AWS_ACCESS_KEY_ID_DEV'' = Some (aws_access_key_id c) \<and> aws_access_key_id c \<noteq> [] \<and>
        env ''AWS_SECRET_ACCESS_KEY_DEV'' = Some (aws_secret_access_key c) \<and>
        aws_secret_access_key c \<noteq> [] \<and> aws_region_name c \<noteq> [] \<and>
        (env ''AWS_DEFAULT_REGION'' = Some (aws_region_name c) \<or>
         env ''AWS_DEFAULT_REGION'' = None \<and> env ''AWS_REGION'' = Some (aws_region_name c)))
 \<and> (get_aws_credentials (environ w) = Inl e \<and> parse_args av = Inr a \<and>
      \<not> truthy (args_profile a) \<longrightarrow>
        fst (aws_s3_main av w) = Inl e \<and>
        filter is_call (trace (snd (aws_s3_main av w))) = filter is_call (trace w) \<and>
        fs (snd (aws_s3_main av w)) = fs w)
 \<and> (get_aws_credentials (environ w) = Inl e \<and> get_opt ''--username'' av' = Some u \<and>
      get_opt ''--cognito-userpool'' av' = Some p \<and> \<not> truthy (get_opt ''--profile'' av') \<longrightarrow>
        aws_cognito_users_main av' w = (Inl e, w))"
proof (intro conjI impI)
  assume "env ''AWS_DEFAULT_REGION'' = Some [] \<or>
      (env ''AWS_DEFAULT_REGION'' = None \<and>
       (env ''AWS_REGION'' = None \<or> env ''AWS_REGION'' = Some []))"
  then show "get_aws_credentials env =
          Inl (AwsConfigException
            ''Environment variable [AWS_DEFAULT_REGION | AWS_REGION] not set'')"
    by (simp add: get_aws_credentials_region region_empty_iff)
next
  assume "getenv env ''AWS_DEFAULT_REGION'' (getenv env ''AWS_REGION'' []) \<noteq> [] \<and>
      (env ''AWS_ACCESS_KEY_ID_DEV'' = None \<or> env ''AWS_ACCESS_KEY_ID_DEV'' = Some [])"
  then show "get_aws_credentials env =
          Inl (AwsConfigException ''Environment variable AWS_ACCESS_KEY_ID_DEV not set'')"
    by (simp add: get_aws_credentials_access_key getenv_empty_iff)
next
  assume "getenv env ''AWS_DEFAULT_REGION'' (getenv env ''AWS_REGION'' []) \<noteq> [] \<and>
      getenv env ''AWS_ACCESS_KEY_ID_DEV'' [] \<noteq> [] \<and>
      (env ''AWS_SECRET_ACCESS_KEY_DEV'' = None \<or> env ''AWS_SECRET_ACCESS_KEY_DEV'' = Some [])"
  then show "get_aws_credentials env =
          Inl (AwsConfigException ''Environment variable AWS_SECRET_ACCESS_KEY_DEV not set'')"
    by (simp add: get_aws_credentials_secret_key getenv_empty_iff)
next
  show "''Environment variable [AWS_DEFAULT_REGION | AWS_REGION] not set'' \<noteq>
      ''Environment variable AWS_ACCESS_KEY_ID_DEV not set''"
    by simp
  show "''Environment variable [AWS_DEFAULT_REGION | AWS_REGION] not set'' \<noteq>
      ''Environment variable AWS_SECRET_ACCESS_KEY_DEV not set''"
    by simp
  show "''Environment variable AWS_ACCESS_KEY_ID_DEV not set'' \<noteq>
      ''Environment variable AWS_SECRET_ACCESS_KEY_DEV not set''"
    by simp
next
  assume c: "get_aws_credentials env = Inr c"
  then have r: "getenv env ''AWS_DEFAULT_REGION'' (getenv env ''AWS_REGION'' []) \<noteq> []"
    and a: "getenv env ''AWS_ACCESS_KEY_ID_DEV'' [] \<noteq> []"
    and s: "getenv env ''AWS_SECRET_ACCESS_KEY_DEV'' [] \<noteq> []"
    by (auto simp: get_aws_credentials_def Let_def split: if_splits)
  from c have eq: "c = \<lparr>aws_access_key_id = getenv env ''AWS_ACCESS_KEY_ID_DEV'' [],
          aws_secret_access_key = getenv env ''AWS_SECRET_ACCESS_KEY_DEV'' [],
          aws_region_name = getenv env ''AWS_DEFAULT_REGION'' (getenv env ''AWS_REGION'' [])\<rparr>"
    by (simp add: get_aws_credentials_ok [OF r a s])
  show "env ''AWS_ACCESS_KEY_ID_DEV'' = Some (aws_access_key_id c)"
    using a by (simp add: eq getenv_def split: option.splits)
  show "aws_access_key_id c \<noteq> []" using a by (simp add: eq)
  show "env ''AWS_SECRET_ACCESS_KEY_DEV'' = Some (aws_secret_access_key c)"
    using s by (simp add: eq getenv_def split: option.splits)
  show "aws_secret_access_key c \<noteq> []" using s by (simp add: eq)
  show "aws_region_name c \<noteq> []" using r by (simp add: eq)
  show "env ''AWS_DEFAULT_REGION'' = Some (aws_region_name c) \<or>
         env ''AWS_DEFAULT_REGION'' = None \<and> env ''AWS_REGION'' = Some (aws_region_name c)"
    using r by (auto simp: eq getenv_def split: option.splits)
next
  assume "get_aws_credentials (environ w) = Inl e \<and> parse_args av = Inr a \<and>
      \<not> truthy (args_profile a)"
  then have m: "fst (aws_s3_main av w) = Inl e
       \<and> filter is_call (trace (snd (aws_s3_main av w))) = filter is_call (trace w)
       \<and> fs (snd (aws_s3_main av w)) = fs w"
    using main_s3_fails by blast
  show "fst (aws_s3_main av w) = Inl e" using m by simp
  show "filter is_call (trace (snd (aws_s3_main av w))) = filter is_call (trace w)"
    using m by simp
  show "fs (snd (aws_s3_main av w)) = fs w" using m by simp
next
  assume "get_aws_credentials (environ w) = Inl e \<and> get_opt ''--username'' av' = Some u \<and>
      get_opt ''--cognito-userpool'' av' = Some p \<and> \<not> truthy (get_opt ''--profile'' av')"
  then show "aws_cognito_users_main av' w = (Inl e, w)"
    using main_cognito_fails by blast
qed

theorem missing_variable_errors_witness:
  "get_aws_credentials (map_of []) =
     Inl (AwsConfigException ''Environment variable [AWS_DEFAULT_REGION | AWS_REGION] not set'')
 \<and> get_aws_credentials (map_of
       [(''AWS_REGION'', ''eu-west-1''), (''AWS_SECRET_ACCESS_KEY_DEV'', ''secret'')]) =
     Inl (AwsConfigException ''Environment variable AWS_ACCESS_KEY_ID_DEV not set'')
 \<and> get_aws_credentials (map_of
       [(''AWS_DEFAULT_REGION'', ''us-east-1''), (''AWS_ACCESS_KEY_ID_DEV'', ''AKIA''),
        (''AWS_SECRET_ACCESS_KEY_DEV'', [])]) =
     Inl (AwsConfigException ''Environment variable AWS_SECRET_ACCESS_KEY_DEV not set'')
 \<and> fst (aws_s3_main [(''--bucket'', Some ''photos'')]
          (demo_world [(''AWS_REGION'', ''eu-west-1'')])) =
     Inl (AwsConfigException ''Environment variable AWS_ACCESS_KEY_ID_DEV not set'')
 \<and> filter is_call (trace (snd (aws_s3_main [(''--bucket'', Some ''photos'')]
          (demo_world [(''AWS_REGION'', ''eu-west-1'')])))) = []
 \<and> aws_cognito_users_main
       [(''--username'', Some ''bob''), (''--cognito-userpool'', Some ''eu-west-1_abc'')]
       (demo_world [(''AWS_REGION'', ''eu-west-1'')]) =
     (Inl (AwsConfigException ''Environment variable AWS_ACCESS_KEY_ID_DEV not set''),
      demo_world [(''AWS_REGION'', ''eu-west-1'')])"
proof -
  have e: "get_aws_credentials (environ (demo_world [(''AWS_REGION'', ''eu-west-1'')])) =
             Inl (AwsConfigException ''Environment variable AWS_ACCESS_KEY_ID_DEV not set'')"
    by (simp add: demo_world_def get_aws_credentials_def getenv_def)
  have a: "parse_args [(''--bucket'', Some ''photos'')] =
             Inr \<lparr>args_bucket = ''photos'', args_bucket_key = None, args_profile = None,
                  args_dryrun = False, args_verbose = False\<rparr>"
    by (simp add: parse_args_def has_flag_def)
  have t: "trace (demo_world [(''AWS_REGION'', ''eu-west-1'')]) = []"
    by (simp add: demo_world_def)
  have "get_aws_credentials (map_of []) =
     Inl (AwsConfigException ''Environment variable [AWS_DEFAULT_REGION | AWS_REGION] not set'')"
    using missing_variable_errors [of "map_of []", THEN conjunct1] by simp
  moreover have "get_aws_credentials (map_of
       [(''AWS_REGION'', ''eu-west-1''), (''AWS_SECRET_ACCESS_KEY_DEV'', ''secret'')]) =
     Inl (AwsConfigException ''Environment variable AWS_ACCESS_KEY_ID_DEV not set'')"
    using missing_variable_errors [of "map_of
       [(''AWS_REGION'', ''eu-west-1''), (''AWS_SECRET_ACCESS_KEY_DEV'', ''secret'')]",
       THEN conjunct2, THEN conjunct1]
    by (simp add: getenv_def)
  moreover have "get_aws_credentials (map_of
       [(''AWS_DEFAULT_REGION'', ''us-east-1''), (''AWS_ACCESS_KEY_ID_DEV'', ''AKIA''),
        (''AWS_SECRET_ACCESS_KEY_DEV'', [])]) =
     Inl (AwsConfigException ''Environment variable AWS_SECRET_ACCESS_KEY_DEV not set'')"
    using missing_variable_errors [of "map_of
       [(''AWS_DEFAULT_REGION'', ''us-east-1''), (''AWS_ACCESS_KEY_ID_DEV'', ''AKIA''),
        (''AWS_SECRET_ACCESS_KEY_DEV'', [])]",
       THEN conjunct2, THEN conjunct2, THEN conjunct1]
    by (simp add: getenv_def)
  moreover have "fst (aws_s3_main [(''--bucket'', Some ''photos'')]
          (demo_world [(''AWS_REGION'', ''eu-west-1'')])) =
     Inl (AwsConfigException ''Environment variable AWS_ACCESS_KEY_ID_DEV not set'')
   \<and> filter is_call (trace (snd (aws_s3_main [(''--bucket'', Some ''photos'')]
          (demo_world [(''AWS_REGION'', ''eu-west-1'')])))) = []"
    using missing_variable_errors
            [of "map_of []" "\<lparr>aws_access_key_id = [], aws_secret_access_key = [],
                               aws_region_name = []\<rparr>"
                "demo_world [(''AWS_REGION'', ''eu-west-1'')]"
                "AwsConfigException ''Environment variable AWS_ACCESS_KEY_ID_DEV not set''"
                "[(''--bucket'', Some ''photos'')]"
                "\<lparr>args_bucket = ''photos'', args_bucket_key = None, args_profile = None,
                  args_dryrun = False, args_verbose = False\<rparr>",
             THEN conjunct2, THEN conjunct2, THEN conjunct2, THEN conjunct2, THEN conjunct2,
             THEN conjunct2, THEN conjunct2, THEN conjunct1]
          e a t
    by (simp add: truthy_def)
  moreover have "aws_cognito_users_main
       [(''--username'', Some ''bob''), (''--cognito-userpool'', Some ''eu-west-1_abc'')]
       (demo_world [(''AWS_REGION'', ''eu-west-1'')]) =
     (Inl (AwsConfigException ''Environment variable AWS_ACCESS_KEY_ID_DEV not set''),
      demo_world [(''AWS_REGION'', ''eu-west-1'')])"
    using missing_variable_errors
            [of "map_of []" "\<lparr>aws_access_key_id = [], aws_secret_access_key = [],
                               aws_region_name = []\<rparr>"
                "demo_world [(''AWS_REGION'', ''eu-west-1'')]"
                "AwsConfigException ''Environment variable AWS_ACCESS_KEY_ID_DEV not set''"
                "[]" "\<lparr>args_bucket = [], args_bucket_key = None, args_profile = None,
                  args_dryrun = False, args_verbose = False\<rparr>"
                "[(''--username'', Some ''bob''), (''--cognito-userpool'', Some ''eu-west-1_abc'')]"
                "''bob''" "''eu-west-1_abc''",
             THEN conjunct2, THEN conjunct2, THEN conjunct2, THEN conjunct2, THEN conjunct2,
             THEN conjunct2, THEN conjunct2, THEN conjunct2]
          e
    by (simp add: truthy_def)
  ultimately show ?thesis by simp
qed

end
